theory Spec2Isabelle
  imports Complex_Main
begin

section \<open>Python values, exceptions and printed warnings\<close>

text \<open>
  The numbers of \<^verbatim>\<open>flow.py\<close> (Python ints read from the console, and the floats that
  true division produces) are modelled as exact reals: \<open>/\<close> is exact division, and the
  rounding and range of binary floating point are outside the model.
\<close>

datatype error = ZeroDivisionError | IndexError | OverflowError

text \<open>\<^verbatim>\<open>xs[i]\<close> for an index \<open>i\<close> taken from \<^verbatim>\<open>range(...)\<close>, hence never negative.\<close>

definition py_index :: "'a list \<Rightarrow> nat \<Rightarrow> error + 'a" where
  "py_index xs i = (if i < length xs then Inr (xs ! i) else Inl IndexError)"

text \<open>\<^verbatim>\<open>a / b\<close>: true division, raising on a zero divisor.\<close>

definition py_truediv :: "real \<Rightarrow> real \<Rightarrow> error + real" where
  "py_truediv a b = (if b = 0 then Inl ZeroDivisionError else Inr (a / b))"

text \<open>
  The two \<^verbatim>\<open>print\<close> calls of the core, as events:
  \<^verbatim>\<open>Warning: Speed cannot be zero at signal index {i}.\<close> and
  \<^verbatim>\<open>Warning: Speed should be greater than zero for distance {distance}.\<close>
\<close>

datatype 'n warning = SpeedZeroAtIndex nat | SpeedNotPositiveForDistance 'n

subsection \<open>The format \<^verbatim>\<open>{x:.2f}\<close>\<close>

definition digit_char :: "nat \<Rightarrow> char" where
  "digit_char d = ''0123456789'' ! d"

fun str_nat :: "nat \<Rightarrow> string" where
  "str_nat n = (if n < 10 then [digit_char n] else str_nat (n div 10) @ [digit_char (n mod 10)])"

declare str_nat.simps [simp del]

text \<open>Rounding to the nearest integer, an exact tie going to the even neighbour.\<close>

definition round_half_even :: "real \<Rightarrow> int" where
  "round_half_even x =
     (let f = \<lfloor>x\<rfloor>; r = x - of_int f
      in if r < 1 / 2 then f else if 1 / 2 < r then f + 1 else if even f then f else f + 1)"

definition format_2f :: "real \<Rightarrow> string" where
  "format_2f x =
     (let n = nat (round_half_even (\<bar>x\<bar> * 100))
      in (if x < 0 then ''-'' else '''') @ str_nat (n div 100) @ ''.''
         @ [digit_char (n div 10 mod 10), digit_char (n mod 10)])"

text \<open>\<^verbatim>\<open>f'Low flow (Rating: {flow_rating:.2f})'\<close>\<close>

definition low_flow_label :: "real \<Rightarrow> string" where
  "low_flow_label flow_rating = ''Low flow (Rating: '' @ format_2f flow_rating @ '')''"

section \<open>class TrafficSimulation\<close>

text \<open>
  The object's attributes; \<open>rating\<close> exists only once \<^verbatim>\<open>simulate\<close> has set it, and
  \<open>stdout\<close> collects what the methods print.
\<close>

record 'n TrafficSimulation =
  distances :: "'n list"
  speeds :: "'n list"
  volumes :: "'n list"
  green_times :: "'n list"
  emergencies :: "int set"
  accidents :: "int set"
  flow :: "'n list"
  bad_scenarios :: "(nat \<times> string) list"
  rating :: "'n option"
  stdout :: "'n warning list"

text \<open>\<^verbatim>\<open>__init__\<close>\<close>

definition TrafficSimulation_init ::
  "'n list \<Rightarrow> 'n list \<Rightarrow> 'n list \<Rightarrow> 'n list \<Rightarrow> int list \<Rightarrow> int list \<Rightarrow> 'n TrafficSimulation" where
  "TrafficSimulation_init ds ss vs gs em ac =
     \<lparr>distances = ds, speeds = ss, volumes = vs, green_times = gs,
      emergencies = set em, accidents = set ac,
      flow = [], bad_scenarios = [], rating = None, stdout = []\<rparr>"

definition optimize_signals :: "real TrafficSimulation \<Rightarrow> real list" where
  "optimize_signals self =
     map (\<lambda>(gt, volume). max gt (volume * 2 / 3600 * 60)) (zip (green_times self) (volumes self))"

text \<open>
  The body of the \<^verbatim>\<open>try\<close> block for signal \<open>i\<close>. Nothing is appended before the last
  operation that can raise, so an exception leaves the object as it was.
  \<^verbatim>\<open>optimized_green_times[i]\<close> is read up to three times from a list that does not
  change; the model reads it once.
\<close>

definition simulate_try :: "real list \<Rightarrow> nat \<Rightarrow> real TrafficSimulation \<Rightarrow> error + real TrafficSimulation" where
  "simulate_try optimized_green_times i self =
     (case py_index (distances self) i of Inl e \<Rightarrow> Inl e | Inr d \<Rightarrow>
     (case py_index (speeds self) i of Inl e \<Rightarrow> Inl e | Inr s \<Rightarrow>
     (case py_truediv d s of Inl e \<Rightarrow> Inl e | Inr travel_time \<Rightarrow>
     (case py_index optimized_green_times i of Inl e \<Rightarrow> Inl e | Inr g \<Rightarrow>
        if travel_time \<le> g then Inr (self\<lparr>flow := flow self @ [10]\<rparr>)
        else
          (let excess_time = travel_time - g in
           (case py_truediv excess_time g of Inl e \<Rightarrow> Inl e | Inr q \<Rightarrow>
              (let penalty = min 9 (q * 9);
                   flow_rating = max 1 (10 - penalty);
                   self' = self\<lparr>flow := flow self @ [flow_rating]\<rparr>
               in if flow_rating < 5
                  then Inr (self'\<lparr>bad_scenarios :=
                              bad_scenarios self' @ [(i, low_flow_label flow_rating)]\<rparr>)
                  else Inr self')))))))"

text \<open>One iteration of the loop: only \<^verbatim>\<open>ZeroDivisionError\<close> is caught.\<close>

definition simulate_body :: "real list \<Rightarrow> nat \<Rightarrow> real TrafficSimulation \<Rightarrow> error + real TrafficSimulation" where
  "simulate_body optimized_green_times i self =
     (if int i \<in> accidents self
      then Inr (self\<lparr>flow := flow self @ [0],
                     bad_scenarios := bad_scenarios self @ [(i, ''Accident'')]\<rparr>)
      else if int i \<in> emergencies self
      then Inr (self\<lparr>flow := flow self @ [5],
                     bad_scenarios := bad_scenarios self @ [(i, ''Emergency'')]\<rparr>)
      else
        case simulate_try optimized_green_times i self of
          Inr self' \<Rightarrow> Inr self'
        | Inl ZeroDivisionError \<Rightarrow>
            Inr (self\<lparr>flow := flow self @ [0],
                      bad_scenarios := bad_scenarios self @ [(i, ''Zero Speed'')],
                      stdout := stdout self @ [SpeedZeroAtIndex i]\<rparr>)
        | Inl e \<Rightarrow> Inl e)"

text \<open>\<^verbatim>\<open>for i in range(num_signals)\<close>; an uncaught exception ends the loop.\<close>

fun simulate_loop :: "real list \<Rightarrow> nat list \<Rightarrow> real TrafficSimulation \<Rightarrow> error + real TrafficSimulation" where
  "simulate_loop optimized_green_times [] self = Inr self"
| "simulate_loop optimized_green_times (i # rest) self =
     (case simulate_body optimized_green_times i self of
        Inl e \<Rightarrow> Inl e
      | Inr self' \<Rightarrow> simulate_loop optimized_green_times rest self')"

text \<open>\<^verbatim>\<open>np.mean(self.flow) if self.flow else 0\<close>\<close>

definition mean_rating :: "real list \<Rightarrow> real" where
  "mean_rating fl = (if fl \<noteq> [] then sum_list fl / real (length fl) else 0)"

text \<open>\<^verbatim>\<open>simulate\<close> returns the rating and leaves the results in the object.\<close>

definition simulate :: "real TrafficSimulation \<Rightarrow> error + real \<times> real TrafficSimulation" where
  "simulate self =
     (let optimized_green_times = optimize_signals self;
          num_signals = length (distances self)
      in case simulate_loop optimized_green_times [0..<num_signals] self of
           Inl e \<Rightarrow> Inl e
         | Inr self' \<Rightarrow>
             let r = mean_rating (flow self') in Inr (r, self'\<lparr>rating := Some r\<rparr>))"

section \<open>calculate_green_times\<close>

text \<open>
  The loop over \<^verbatim>\<open>zip(distances, speeds, volumes)\<close>, with the list built so far and the
  warnings printed so far.
\<close>

fun calculate_green_times_loop ::
  "(real \<times> real \<times> real) list \<Rightarrow> real list \<times> real warning list \<Rightarrow> error + real list \<times> real warning list" where
  "calculate_green_times_loop [] acc = Inr acc"
| "calculate_green_times_loop ((distance, speed, volume) # rest) (gts, out) =
     (if speed \<le> 0
      then calculate_green_times_loop rest (gts @ [0], out @ [SpeedNotPositiveForDistance distance])
      else
        case py_truediv distance speed of
          Inl e \<Rightarrow> Inl e
        | Inr travel_time \<Rightarrow>
            let volume_green_time = volume * 2 / 3600 * 60;
                green_time = max travel_time volume_green_time
            in calculate_green_times_loop rest (gts @ [green_time], out))"

definition calculate_green_times ::
  "real list \<Rightarrow> real list \<Rightarrow> real list \<Rightarrow> error + real list \<times> real warning list" where
  "calculate_green_times ds ss vs = calculate_green_times_loop (zip ds (zip ss vs)) ([], [])"

section \<open>Summaries of one loop iteration\<close>

text \<open>
  What one iteration of each loop contributes, as functions of the inputs alone. They are
  not part of the program: the lemmas of the next section show that the loops above compute
  exactly these values, and the theorems about \<open>simulate\<close> and \<open>calculate_green_times\<close>
  are derived through them.
\<close>

definition flow_rating_of :: "real \<Rightarrow> real \<Rightarrow> real" where
  "flow_rating_of t g = max 1 (10 - min 9 ((t - g) / g * 9))"

definition signal_flow :: "real TrafficSimulation \<Rightarrow> real list \<Rightarrow> nat \<Rightarrow> real" where
  "signal_flow self opt i =
     (if int i \<in> accidents self then 0
      else if int i \<in> emergencies self then 5
      else if speeds self ! i = 0 then 0
      else let t = distances self ! i / speeds self ! i; g = opt ! i
           in if t \<le> g then 10
              else if g = 0 then 0
              else flow_rating_of t g)"

definition signal_bad :: "real TrafficSimulation \<Rightarrow> real list \<Rightarrow> nat \<Rightarrow> (nat \<times> string) list" where
  "signal_bad self opt i =
     (if int i \<in> accidents self then [(i, ''Accident'')]
      else if int i \<in> emergencies self then [(i, ''Emergency'')]
      else if speeds self ! i = 0 then [(i, ''Zero Speed'')]
      else let t = distances self ! i / speeds self ! i; g = opt ! i
           in if t \<le> g then []
              else if g = 0 then [(i, ''Zero Speed'')]
              else if signal_flow self opt i < 5 then [(i, low_flow_label (signal_flow self opt i))]
              else [])"

definition signal_warnings :: "real TrafficSimulation \<Rightarrow> real list \<Rightarrow> nat \<Rightarrow> real warning list" where
  "signal_warnings self opt i =
     (if int i \<in> accidents self \<or> int i \<in> emergencies self then []
      else if speeds self ! i = 0 then [SpeedZeroAtIndex i]
      else if distances self ! i / speeds self ! i \<le> opt ! i then []
      else if opt ! i = 0 then [SpeedZeroAtIndex i]
      else [])"

definition record_signal ::
  "'n TrafficSimulation \<Rightarrow> 'n list \<Rightarrow> (nat \<times> string) list \<Rightarrow> 'n warning list \<Rightarrow> 'n TrafficSimulation" where
  "record_signal self fl bad out =
     self\<lparr>flow := flow self @ fl, bad_scenarios := bad_scenarios self @ bad, stdout := stdout self @ out\<rparr>"

text \<open>
  The input condition of the theorems: the sequences of speeds, volumes and green times
  have an entry for every signal that \<open>distances\<close> lists, as equal-length input has.
\<close>

definition lengths_cover ::"real list \<Rightarrow> real list \<Rightarrow> real list \<Rightarrow> real list \<Rightarrow> bool" where
  "lengths_cover ds ss vs gs \<longleftrightarrow>
     length ds \<le> length ss \<and> length ds \<le> length vs \<and> length ds \<le> length gs"

definition green_time_of :: "real \<times> real \<times> real \<Rightarrow> real" where
  "green_time_of = (\<lambda>(distance, speed, volume).
     if speed \<le> 0 then 0 else max (distance / speed) (volume * 2 / 3600 * 60))"

definition green_time_warnings :: "real \<times> real \<times> real \<Rightarrow> real warning list" where
  "green_time_warnings = (\<lambda>(distance, speed, volume).
     if speed \<le> 0 then [SpeedNotPositiveForDistance distance] else [])"

text \<open>
  Two objects with the same six inputs, two objects holding the same results so far, and
  what a run lets its caller observe: the exception, or the rating with the flow sequence
  and the bad scenarios.
\<close>

definition same_inputs :: "'n TrafficSimulation \<Rightarrow> 'n TrafficSimulation \<Rightarrow> bool" where
  "same_inputs a b \<longleftrightarrow>
     distances a = distances b \<and> speeds a = speeds b \<and> volumes a = volumes b \<and>
     green_times a = green_times b \<and> emergencies a = emergencies b \<and> accidents a = accidents b"

definition same_results :: "'n TrafficSimulation \<Rightarrow> 'n TrafficSimulation \<Rightarrow> bool" where
  "same_results a b \<longleftrightarrow> flow a = flow b \<and> bad_scenarios a = bad_scenarios b"

definition run_outcome ::
  "error + real \<times> real TrafficSimulation \<Rightarrow> error + real \<times> real list \<times> (nat \<times> string) list" where
  "run_outcome res = (case res of Inl e \<Rightarrow> Inl e | Inr (r, self') \<Rightarrow> Inr (r, flow self', bad_scenarios self'))"

section \<open>The loops compute the summaries\<close>

lemma simulate_body_outcome:
  assumes "i < length (distances self)" "i < length (speeds self)" "i < length opt"
  shows "simulate_body opt i self =
         Inr (record_signal self [signal_flow self opt i] (signal_bad self opt i) (signal_warnings self opt i))"
  using assms
  by (auto simp: simulate_body_def simulate_try_def py_index_def py_truediv_def signal_flow_def
      signal_bad_def signal_warnings_def record_signal_def flow_rating_of_def Let_def)

lemma signal_flow_record [simp]:
  "signal_flow (record_signal self fl bad out) opt i = signal_flow self opt i"
  by (simp add: signal_flow_def record_signal_def)

lemma signal_bad_record [simp]:
  "signal_bad (record_signal self fl bad out) opt i = signal_bad self opt i"
  unfolding signal_bad_def signal_flow_record by (simp add: record_signal_def)

lemma signal_warnings_record [simp]:
  "signal_warnings (record_signal self fl bad out) opt i = signal_warnings self opt i"
  by (simp add: signal_warnings_def record_signal_def)

lemma inputs_record [simp]:
  "distances (record_signal self fl bad out) = distances self"
  "speeds (record_signal self fl bad out) = speeds self"
  by (simp_all add: record_signal_def)

lemma record_signal_twice [simp]:
  "record_signal (record_signal self fl bad out) fl' bad' out' =
   record_signal self (fl @ fl') (bad @ bad') (out @ out')"
  by (simp add: record_signal_def)

lemma record_signal_nothing [simp]: "record_signal self [] [] [] = self"
  by (simp add: record_signal_def)

lemma simulate_loop_outcome:
  assumes "\<forall>i\<in>set is. i < length (distances self) \<and> i < length (speeds self) \<and> i < length opt"
  shows "simulate_loop opt is self =
         Inr (record_signal self (map (signal_flow self opt) is)
                (concat (map (signal_bad self opt) is))
                (concat (map (signal_warnings self opt) is)))"
  using assms
proof (induction "is" arbitrary: self)
  case Nil
  then show ?case by simp
next
  case (Cons i rest)
  have step: "simulate_body opt i self =
         Inr (record_signal self [signal_flow self opt i] (signal_bad self opt i) (signal_warnings self opt i))"
    using Cons.prems by (simp add: simulate_body_outcome)
  have "simulate_loop opt rest (record_signal self [signal_flow self opt i] (signal_bad self opt i) (signal_warnings self opt i))
        = Inr (record_signal (record_signal self [signal_flow self opt i] (signal_bad self opt i) (signal_warnings self opt i))
             (map (signal_flow self opt) rest)
                (concat (map (signal_bad self opt) rest))
                (concat (map (signal_warnings self opt) rest)))"
    using Cons.IH[of "record_signal self [signal_flow self opt i] (signal_bad self opt i) (signal_warnings self opt i)"] Cons.prems
    by simp
  then show ?case using step by simp
qed

lemma calculate_green_times_loop_outcome:
  "calculate_green_times_loop xs (gts, out) =
   Inr (gts @ map green_time_of xs, out @ concat (map green_time_warnings xs))"
proof (induction xs arbitrary: gts out)
  case Nil
  then show ?case by simp
next
  case (Cons x xs)
  obtain d s v where x: "x = (d, s, v)" by (cases x) auto
  show ?case
    by (simp add: x Cons.IH py_truediv_def green_time_of_def green_time_warnings_def Let_def)
qed

lemma calculate_green_times_outcome:
  "calculate_green_times ds ss vs =
   Inr (map green_time_of (zip ds (zip ss vs)), concat (map green_time_warnings (zip ds (zip ss vs))))"
  by (simp add: calculate_green_times_def calculate_green_times_loop_outcome)

lemma optimize_signals_length:
  "length (optimize_signals self) = min (length (green_times self)) (length (volumes self))"
  by (simp add: optimize_signals_def)

lemma optimize_signals_nth:
  assumes "i < length (green_times self)" "i < length (volumes self)"
  shows "optimize_signals self ! i = max (green_times self ! i) (volumes self ! i * 2 / 3600 * 60)"
  using assms by (simp add: optimize_signals_def)

lemma simulate_outcome:
  assumes "lengths_cover (distances self) (speeds self) (volumes self) (green_times self)"
  shows "simulate self =
         (let opt = optimize_signals self;
              is = [0..<length (distances self)];
              self' = record_signal self (map (signal_flow self opt) is)
                        (concat (map (signal_bad self opt) is))
                        (concat (map (signal_warnings self opt) is))
          in Inr (mean_rating (flow self'), self'\<lparr>rating := Some (mean_rating (flow self'))\<rparr>))"
proof -
  have "\<forall>i\<in>set [0..<length (distances self)].
          i < length (distances self) \<and> i < length (speeds self) \<and> i < length (optimize_signals self)"
    using assms by (auto simp: lengths_cover_def optimize_signals_length)
  from simulate_loop_outcome[OF this] show ?thesis
    by (simp add: simulate_def Let_def)
qed

lemma simulate_init_outcome:
  fixes ds ss vs gs :: "real list" and em ac :: "int list"
  assumes "lengths_cover ds ss vs gs"
  defines "self \<equiv> TrafficSimulation_init ds ss vs gs em ac"
  defines "opt \<equiv> optimize_signals self"
  shows "\<exists>r self'. simulate self = Inr (r, self')
           \<and> flow self' = map (signal_flow self opt) [0..<length ds]
           \<and> bad_scenarios self' = concat (map (signal_bad self opt) [0..<length ds])
           \<and> stdout self' = concat (map (signal_warnings self opt) [0..<length ds])
           \<and> r = mean_rating (flow self') \<and> rating self' = Some r"
proof -
  have "lengths_cover (distances self) (speeds self) (volumes self) (green_times self)"
    using assms(1) by (simp add: self_def TrafficSimulation_init_def)
  from simulate_outcome[OF this] show ?thesis
    by (simp add: Let_def opt_def record_signal_def self_def TrafficSimulation_init_def)
qed

lemma signal_bad_index: "x \<in> set (signal_bad self opt j) \<Longrightarrow> fst x = j"
  by (auto simp: signal_bad_def Let_def split: if_splits)

lemma filter_concat_indexed:
  assumes "\<And>j x. x \<in> set (f j) \<Longrightarrow> fst x = j" "distinct is" "i \<in> set is"
  shows "filter (\<lambda>x. fst x = i) (concat (map f is)) = f i"
  using assms(2,3)
proof (induction "is")
  case Nil
  then show ?case by simp
next
  case (Cons j js)
  have own: "filter (\<lambda>x. fst x = j) (f j) = f j"
    using assms(1) by (simp add: filter_id_conv)
  have other: "k \<noteq> i \<Longrightarrow> filter (\<lambda>x. fst x = i) (f k) = []" for k
    using assms(1) by (auto simp: filter_empty_conv)
  have none: "i \<notin> set ks \<Longrightarrow> filter (\<lambda>x. fst x = i) (concat (map f ks)) = []" for ks
    using assms(1) by (auto simp: filter_empty_conv)
  show ?case
  proof (cases "j = i")
    case True
    with Cons.prems have "i \<notin> set js" by simp
    with True own none show ?thesis by simp
  next
    case False
    with Cons.prems have "i \<in> set js" "distinct js" by auto
    with Cons.IH other[OF False] show ?thesis by simp
  qed
qed

lemma bad_scenarios_of_signal:
  assumes "i < n"
  shows "filter (\<lambda>x. fst x = i) (concat (map (signal_bad self opt) [0..<n])) = signal_bad self opt i"
  using assms by (intro filter_concat_indexed) (auto dest: signal_bad_index)






lemma init_fields [simp]:
  "distances (TrafficSimulation_init ds ss vs gs em ac) = ds"
  "speeds (TrafficSimulation_init ds ss vs gs em ac) = ss"
  "volumes (TrafficSimulation_init ds ss vs gs em ac) = vs"
  "green_times (TrafficSimulation_init ds ss vs gs em ac) = gs"
  "emergencies (TrafficSimulation_init ds ss vs gs em ac) = set em"
  "accidents (TrafficSimulation_init ds ss vs gs em ac) = set ac"
  by (simp_all add: TrafficSimulation_init_def)

lemma simulate_init_signal:
  fixes ds ss vs gs :: "real list" and em ac :: "int list"
  assumes "lengths_cover ds ss vs gs" "i < length ds"
  defines "self \<equiv> TrafficSimulation_init ds ss vs gs em ac"
  defines "opt \<equiv> optimize_signals self"
  shows "\<exists>r self'. simulate self = Inr (r, self')
           \<and> length (flow self') = length ds
           \<and> flow self' ! i = signal_flow self opt i
           \<and> filter (\<lambda>x. fst x = i) (bad_scenarios self') = signal_bad self opt i
           \<and> set (signal_warnings self opt i) \<subseteq> set (stdout self')
           \<and> opt ! i = max (gs ! i) (vs ! i * 2 / 3600 * 60)"
proof -
  from simulate_init_outcome[OF assms(1), of em ac]
  obtain r self' where res: "simulate self = Inr (r, self')"
    and fl: "flow self' = map (signal_flow self opt) [0..<length ds]"
    and bad: "bad_scenarios self' = concat (map (signal_bad self opt) [0..<length ds])"
    and out: "stdout self' = concat (map (signal_warnings self opt) [0..<length ds])"
    unfolding self_def opt_def by blast
  have "i < length gs" "i < length vs"
    using assms(1,2) by (simp_all add: lengths_cover_def)
  then have g: "opt ! i = max (gs ! i) (vs ! i * 2 / 3600 * 60)"
    unfolding opt_def self_def by (simp add: optimize_signals_nth)
  have "flow self' ! i = signal_flow self opt i"
    using assms(2) by (simp add: fl)
  moreover have "filter (\<lambda>x. fst x = i) (bad_scenarios self') = signal_bad self opt i"
    unfolding bad using assms(2) by (rule bad_scenarios_of_signal)
  moreover have "set (signal_warnings self opt i) \<subseteq> set (stdout self')"
    unfolding out using assms(2) by auto
  moreover have "length (flow self') = length ds"
    by (simp add: fl)
  ultimately show ?thesis using res g by blast
qed


subsection \<open>The two-decimal format\<close>

lemma round_half_even_nearest: "\<bar>real_of_int (round_half_even x) - x\<bar> \<le> 1 / 2"
proof -
  have "real_of_int \<lfloor>x\<rfloor> \<le> x" "x < real_of_int \<lfloor>x\<rfloor> + 1"
    by linarith+
  then show ?thesis
    by (auto simp: round_half_even_def Let_def)
qed

lemma format_2f_examples:
  "format_2f 1 = ''1.00''" "format_2f (37 / 10) = ''3.70''" "format_2f (9 / 8) = ''1.12''"
  "format_2f (4999 / 1000) = ''5.00''"
  by (simp_all add: format_2f_def round_half_even_def str_nat.simps digit_char_def Let_def)

subsection \<open>Runs on objects that agree\<close>

lemma simulate_body_same:
  assumes "same_inputs a b" "same_results a b"
  shows "rel_sum (=) (\<lambda>a' b'. same_inputs a' b' \<and> same_results a' b')
           (simulate_body opt i a) (simulate_body opt i b)"
  using assms
  by (auto simp: simulate_body_def simulate_try_def py_index_def py_truediv_def Let_def
      same_inputs_def same_results_def)

lemma simulate_loop_same:
  assumes "same_inputs a b" "same_results a b"
  shows "rel_sum (=) (\<lambda>a' b'. same_inputs a' b' \<and> same_results a' b')
           (simulate_loop opt is a) (simulate_loop opt is b)"
  using assms
proof (induction "is" arbitrary: a b)
  case Nil
  then show ?case by simp
next
  case (Cons i rest)
  from simulate_body_same[OF Cons.prems, of opt i] show ?case
    by (cases "simulate_body opt i a"; cases "simulate_body opt i b") (use Cons.IH in auto)
qed

section \<open>Properties of the flow simulator and the green-time calculator\<close>

subsection \<open>The zero-speed guard\<close>




subsection \<open>Accident precedence\<close>



subsection \<open>Score bounds\<close>



subsection \<open>The penalty formula\<close>

text \<open>
  Claim C4. For every signal \<open>i\<close> in the normal branch (in neither disruption set, speed
  not zero) whose travel time \<open>distances[i] / speeds[i]\<close> is strictly above the optimized
  green time \<open>g\<close>, with \<open>g\<close> not zero, \<open>simulate\<close> computes
  \<open>flow[i] = max(1, 10 - min(9, (travel_time - g) / g * 9))\<close>, and the bad scenario
  \<open>(i, 'Low flow (Rating: x.xx)')\<close>, the score formatted with two decimals, is recorded
  exactly when \<open>flow[i] < 5\<close>.
\<close>

theorem low_flow_formula:
  assumes "lengths_cover ds ss vs gs" "i < length ds"
    and "int i \<notin> set ac" "int i \<notin> set em" "ss ! i \<noteq> 0"
    and "g = max (gs ! i) (vs ! i * 2 / 3600 * 60)" "g \<noteq> 0" "g < ds ! i / ss ! i"
  shows "\<exists>r self'. simulate (TrafficSimulation_init ds ss vs gs em ac) = Inr (r, self')
           \<and> flow self' ! i = max 1 (10 - min 9 ((ds ! i / ss ! i - g) / g * 9))
           \<and> filter (\<lambda>x. fst x = i) (bad_scenarios self') =
               (if flow self' ! i < 5
                then [(i, ''Low flow (Rating: '' @ format_2f (flow self' ! i) @ '')'')] else [])"
proof -
  let ?self = "TrafficSimulation_init ds ss vs gs em ac"
  let ?opt = "optimize_signals ?self"
  from simulate_init_signal[OF assms(1,2), of em ac]
  obtain r self' where res: "simulate ?self = Inr (r, self')"
    and fl: "flow self' ! i = signal_flow ?self ?opt i"
    and bad: "filter (\<lambda>x. fst x = i) (bad_scenarios self') = signal_bad ?self ?opt i"
    and g: "?opt ! i = g"
    using assms(6) by auto
  have v: "signal_flow ?self ?opt i = flow_rating_of (ds ! i / ss ! i) g"
    using assms(3-5,7,8) by (simp add: signal_flow_def g)
  have "signal_bad ?self ?opt i =
        (if signal_flow ?self ?opt i < 5 then [(i, low_flow_label (signal_flow ?self ?opt i))] else [])"
    using assms(3-5,7,8) by (simp add: signal_bad_def g)
  with res fl bad v show ?thesis
    by (simp add: flow_rating_of_def low_flow_label_def)
qed

text \<open>
  Distance 1700 at speed 10 against a green time of 100: the excess is 70, the penalty 6.3,
  the score 3.7, recorded as \<open>'Low flow (Rating: 3.70)'\<close>.
\<close>

theorem low_flow_formula_witness:
  "lengths_cover [1700] [10] [0] [100] \<and> (0::nat) < length [1700 :: real]
   \<and> int 0 \<notin> set [] \<and> [10 :: real] ! 0 \<noteq> 0
   \<and> (100 :: real) = max ([100] ! 0) ([0] ! 0 * 2 / 3600 * 60) \<and> (100 :: real) \<noteq> 0
   \<and> (100 :: real) < [1700] ! 0 / [10] ! 0
   \<and> (\<exists>r self'. simulate (TrafficSimulation_init [1700] [10] [0] [100] [] []) = Inr (r, self')
           \<and> flow self' ! 0 = 37 / 10
           \<and> filter (\<lambda>x. fst x = 0) (bad_scenarios self') = [(0, ''Low flow (Rating: 3.70)'')])"
proof -
  have hyps: "lengths_cover [1700] [10] [0] [100]" "(0::nat) < length [1700 :: real]"
    "int 0 \<notin> set []" "[10 :: real] ! 0 \<noteq> 0"
    "(100 :: real) = max ([100] ! 0) ([0] ! 0 * 2 / 3600 * 60)" "(100 :: real) \<noteq> 0"
    "(100 :: real) < [1700] ! 0 / [10] ! 0"
    by (simp_all add: lengths_cover_def)
  have fmt: "format_2f (37 / 10) = ''3.70''"
    by (simp add: format_2f_def round_half_even_def str_nat.simps digit_char_def Let_def)
  from low_flow_formula[OF hyps(1,2,3,3,4,5,6,7)]
  obtain r self' where res: "simulate (TrafficSimulation_init [1700] [10] [0] [100] [] []) = Inr (r, self')"
    and fl: "flow self' ! 0 = max 1 (10 - min 9 (([1700] ! 0 / [10] ! 0 - 100) / 100 * 9))"
    and bad: "filter (\<lambda>x. fst x = 0) (bad_scenarios self') =
               (if flow self' ! 0 < 5
                then [(0, ''Low flow (Rating: '' @ format_2f (flow self' ! 0) @ '')'')] else [])"
    by blast
  have v: "flow self' ! 0 = 37 / 10"
    unfolding fl by simp
  have "filter (\<lambda>x. fst x = 0) (bad_scenarios self') = [(0, ''Low flow (Rating: 3.70)'')]"
    unfolding bad v fmt by simp
  with res v hyps show ?thesis by blast
qed

subsection \<open>Green times\<close>

text \<open>
  Claim C5. \<open>calculate_green_times\<close> returns, for every index \<open>i\<close> of its result (one
  entry per zipped triple), 0 when \<open>speeds[i] \<le> 0\<close> and otherwise
  \<open>max(distances[i] / speeds[i], volumes[i] * 2 / 3600 * 60)\<close>; in particular a positive
  speed gives a green time of at least \<open>volumes[i] / 30\<close>.
\<close>

theorem green_time_values:
  "\<exists>gts out. calculate_green_times ds ss vs = Inr (gts, out)
     \<and> length gts = min (length ds) (min (length ss) (length vs))
     \<and> (\<forall>i<length gts.
            gts ! i = (if ss ! i \<le> 0 then 0 else max (ds ! i / ss ! i) (vs ! i * 2 / 3600 * 60))
          \<and> (0 < ss ! i \<longrightarrow> vs ! i / 30 \<le> gts ! i))"
proof -
  define gts where "gts = map green_time_of (zip ds (zip ss vs))"
  define out where "out = concat (map green_time_warnings (zip ds (zip ss vs)))"
  have res: "calculate_green_times ds ss vs = Inr (gts, out)"
    unfolding gts_def out_def by (rule calculate_green_times_outcome)
  have len: "length gts = min (length ds) (min (length ss) (length vs))"
    by (simp add: gts_def)
  have val: "gts ! i = (if ss ! i \<le> 0 then 0 else max (ds ! i / ss ! i) (vs ! i * 2 / 3600 * 60))"
    if "i < length gts" for i
    using that by (simp add: gts_def green_time_of_def)
  have floor: "vs ! i / 30 \<le> gts ! i" if "i < length gts" "0 < ss ! i" for i
    using that(2) val[OF that(1)] by (simp add: le_max_iff_disj)
  from val floor have "\<forall>i<length gts.
            gts ! i = (if ss ! i \<le> 0 then 0 else max (ds ! i / ss ! i) (vs ! i * 2 / 3600 * 60))
          \<and> (0 < ss ! i \<longrightarrow> vs ! i / 30 \<le> gts ! i)"
    by blast
  with res len show ?thesis by blast
qed

text \<open>
  Three signals: travel time above the volume allowance, zero speed, volume allowance above
  the travel time.
\<close>

theorem green_time_values_witness:
  "\<exists>gts out. calculate_green_times [100, 5, 60] [10, 0, 20] [30, 4, 120] = Inr (gts, out)
     \<and> length gts = 3 \<and> gts ! 0 = 10 \<and> gts ! 1 = 0 \<and> gts ! 2 = 4
     \<and> (120 :: real) / 30 \<le> gts ! 2"
proof -
  from green_time_values[of "[100, 5, 60]" "[10, 0, 20]" "[30, 4, 120]"]
  obtain gts out where res: "calculate_green_times [100, 5, 60] [10, 0, 20] [30, 4, 120] = Inr (gts, out)"
    and len: "length gts = 3"
    and val: "\<And>i. i < length gts \<Longrightarrow> gts ! i = (if [10, 0, 20 :: real] ! i \<le> 0 then 0
                  else max ([100, 5, 60] ! i / [10, 0, 20] ! i) ([30, 4, 120] ! i * 2 / 3600 * 60))"
    by auto
  have "gts ! 0 = 10" "gts ! 1 = 0" "gts ! 2 = 4"
    using val[of 0] val[of 1] val[of 2] len by simp_all
  then show ?thesis using res len by simp
qed

subsection \<open>No exception escapes\<close>

text \<open>
  Claim C6. On numeric sequences that supply every signal (the sequences of speeds,
  volumes and green times are at least as long as the distances, as equal-length input is)
  and any index sets, neither \<open>calculate_green_times\<close> nor \<open>simulate\<close> raises: each
  returns, with one green time per zipped triple and one flow score per signal. The
  divisions by zero are guarded (\<open>speed \<le> 0\<close>) or caught.
\<close>

theorem core_never_raises:
  assumes "lengths_cover ds ss vs gs"
  shows "(\<exists>gts out. calculate_green_times ds ss vs = Inr (gts, out)
            \<and> length gts = min (length ds) (min (length ss) (length vs)))
       \<and> (\<exists>r self'. simulate (TrafficSimulation_init ds ss vs gs em ac) = Inr (r, self')
            \<and> length (flow self') = length ds)"
proof -
  have "\<exists>gts out. calculate_green_times ds ss vs = Inr (gts, out)
            \<and> length gts = min (length ds) (min (length ss) (length vs))"
    by (simp add: calculate_green_times_outcome)
  moreover have "\<exists>r self'. simulate (TrafficSimulation_init ds ss vs gs em ac) = Inr (r, self')
            \<and> length (flow self') = length ds"
    using simulate_init_outcome[OF assms, of em ac] by auto
  ultimately show ?thesis by blast
qed

text \<open>
  Zero speeds, zero green times and index sets that name no signal.
\<close>

theorem core_never_raises_witness:
  "lengths_cover [0, 7, 3] [0, 0, 2] [0, 0, 0] [0, 0, 0]
   \<and> (\<exists>gts out. calculate_green_times [0, 7, 3] [0, 0, 2] [0, 0, 0] = Inr (gts, out)
            \<and> length gts = 3)
   \<and> (\<exists>r self'. simulate (TrafficSimulation_init [0, 7, 3] [0, 0, 2] [0, 0, 0] [0, 0, 0] [5] [- 1]) = Inr (r, self')
            \<and> length (flow self') = 3)"
  using core_never_raises[of "[0, 7, 3]" "[0, 0, 2]" "[0, 0, 0]" "[0, 0, 0]" "[5]" "[- 1]"]
  by (simp add: lengths_cover_def numeral_3_eq_3)

subsection \<open>Monotonicity in the distance\<close>



text \<open>
  Outside the data model the two sign conditions are needed. With speed -1 and optimized
  green time 1, the distance -2 scores 1 and the larger distance -1 scores 10; with speed 1
  and the negative optimized green time -1, the distance 0 scores 19 and the larger
  distance 1 scores 28.
\<close>

lemma sign_conditions_needed:
  "(- 2 :: real) \<le> - 1
   \<and> simulate (TrafficSimulation_init [- 2] [- 1] [30] [0] [] []) =
       Inr (1, \<lparr>distances = [- 2], speeds = [- 1], volumes = [30], green_times = [0],
                emergencies = {}, accidents = {}, flow = [1],
                bad_scenarios = [(0, ''Low flow (Rating: 1.00)'')],
                rating = Some 1, stdout = []\<rparr>)
   \<and> simulate (TrafficSimulation_init [- 1] [- 1] [30] [0] [] []) =
       Inr (10, \<lparr>distances = [- 1], speeds = [- 1], volumes = [30], green_times = [0],
                 emergencies = {}, accidents = {}, flow = [10], bad_scenarios = [],
                 rating = Some 10, stdout = []\<rparr>)
   \<and> (0 :: real) \<le> 1
   \<and> simulate (TrafficSimulation_init [0] [1] [- 30] [- 1] [] []) =
       Inr (19, \<lparr>distances = [0], speeds = [1], volumes = [- 30], green_times = [- 1],
                 emergencies = {}, accidents = {}, flow = [19], bad_scenarios = [],
                 rating = Some 19, stdout = []\<rparr>)
   \<and> simulate (TrafficSimulation_init [1] [1] [- 30] [- 1] [] []) =
       Inr (28, \<lparr>distances = [1], speeds = [1], volumes = [- 30], green_times = [- 1],
                 emergencies = {}, accidents = {}, flow = [28], bad_scenarios = [],
                 rating = Some 28, stdout = []\<rparr>)"
  by (simp add: simulate_def TrafficSimulation_init_def optimize_signals_def simulate_body_def
      simulate_try_def py_index_def py_truediv_def mean_rating_def low_flow_label_def
      format_2f_def round_half_even_def str_nat.simps digit_char_def Let_def)

subsection \<open>Empty input\<close>

text \<open>
  Claim C8. With empty sequences and empty disruption sets, \<open>simulate\<close> produces an
  empty flow sequence, an empty list of bad scenarios and the rating 0.
\<close>

theorem empty_input:
  "simulate (TrafficSimulation_init [] [] [] [] [] []) =
     Inr (0, \<lparr>distances = [], speeds = [], volumes = [], green_times = [],
              emergencies = {}, accidents = {}, flow = [], bad_scenarios = [],
              rating = Some 0, stdout = []\<rparr>)"
  by (simp add: simulate_def TrafficSimulation_init_def optimize_signals_def mean_rating_def)

subsection \<open>Determinism\<close>

text \<open>
  Claim C9, as amended. \<open>simulate\<close> is deterministic in the six inputs and in the results
  the object already holds: two runs on objects with the same distances, speeds, volumes,
  green times, emergencies and accidents, and with the same flow sequence and bad-scenario
  list before the run (both empty on freshly constructed objects), raise the same
  exception or give the same flow sequence, the same list of bad scenarios in the same
  order and the same rating. The two objects may differ in everything else: the rating
  left by an earlier run and what has been printed so far.
\<close>

theorem simulate_deterministic:
  assumes "same_inputs a b" "same_results a b"
  shows "run_outcome (simulate a) = run_outcome (simulate b)"
proof -
  let ?la = "simulate_loop (optimize_signals a) [0..<length (distances a)] a"
  let ?lb = "simulate_loop (optimize_signals a) [0..<length (distances a)] b"
  have opt: "optimize_signals b = optimize_signals a" "length (distances b) = length (distances a)"
    using assms(1) by (simp_all add: optimize_signals_def same_inputs_def)
  have "rel_sum (=) (\<lambda>a' b'. same_inputs a' b' \<and> same_results a' b') ?la ?lb"
    using assms by (rule simulate_loop_same)
  then show ?thesis
    by (cases ?la; cases ?lb)
       (auto simp: simulate_def run_outcome_def opt same_results_def Let_def)
qed

text \<open>
  A fresh object against one with the same inputs, the emergencies listed twice, a stale
  rating and an earlier warning on the output.
\<close>

theorem simulate_deterministic_witness:
  "same_inputs (TrafficSimulation_init [100, 50, 10 :: real] [10, 5, 0] [30, 0, 0] [10, 10, 0] [2] [1])
     ((TrafficSimulation_init [100, 50, 10 :: real] [10, 5, 0] [30, 0, 0] [10, 10, 0] [2, 2] [1])
        \<lparr>rating := Some 7, stdout := [SpeedZeroAtIndex 3]\<rparr>)
   \<and> same_results (TrafficSimulation_init [100, 50, 10 :: real] [10, 5, 0] [30, 0, 0] [10, 10, 0] [2] [1])
     ((TrafficSimulation_init [100, 50, 10 :: real] [10, 5, 0] [30, 0, 0] [10, 10, 0] [2, 2] [1])
        \<lparr>rating := Some 7, stdout := [SpeedZeroAtIndex 3]\<rparr>)
   \<and> run_outcome (simulate (TrafficSimulation_init [100, 50, 10 :: real] [10, 5, 0] [30, 0, 0] [10, 10, 0] [2] [1]))
     = run_outcome (simulate ((TrafficSimulation_init [100, 50, 10 :: real] [10, 5, 0] [30, 0, 0] [10, 10, 0] [2, 2] [1])
        \<lparr>rating := Some 7, stdout := [SpeedZeroAtIndex 3]\<rparr>))"
proof -
  have h: "same_inputs (TrafficSimulation_init [100, 50, 10 :: real] [10, 5, 0] [30, 0, 0] [10, 10, 0] [2] [1])
     ((TrafficSimulation_init [100, 50, 10 :: real] [10, 5, 0] [30, 0, 0] [10, 10, 0] [2, 2] [1])
        \<lparr>rating := Some 7, stdout := [SpeedZeroAtIndex 3]\<rparr>)"
    "same_results (TrafficSimulation_init [100, 50, 10 :: real] [10, 5, 0] [30, 0, 0] [10, 10, 0] [2] [1])
     ((TrafficSimulation_init [100, 50, 10 :: real] [10, 5, 0] [30, 0, 0] [10, 10, 0] [2, 2] [1])
        \<lparr>rating := Some 7, stdout := [SpeedZeroAtIndex 3]\<rparr>)"
    by (simp_all add: same_inputs_def same_results_def TrafficSimulation_init_def)
  from simulate_deterministic[OF h] h show ?thesis by blast
qed

text \<open>
  Claim C9 as stated speaks of any two runs on identical inputs. \<open>simulate\<close> appends to the
  lists that the constructor created and never resets them, so a second run on the same
  object, with the same six inputs, gives a flow sequence and a bad-scenario list twice as
  long as the first run's.
\<close>

theorem second_run_counterexample:
  "simulate (TrafficSimulation_init [100] [10] [30] [10] [] [0]) =
     Inr (0, \<lparr>distances = [100], speeds = [10], volumes = [30], green_times = [10],
              emergencies = {}, accidents = {0}, flow = [0],
              bad_scenarios = [(0, ''Accident'')], rating = Some 0, stdout = []\<rparr>)
   \<and> simulate \<lparr>distances = [100], speeds = [10], volumes = [30], green_times = [10],
              emergencies = {}, accidents = {0}, flow = [0],
              bad_scenarios = [(0, ''Accident'')], rating = Some 0, stdout = []\<rparr> =
     Inr (0, \<lparr>distances = [100], speeds = [10], volumes = [30], green_times = [10],
              emergencies = {}, accidents = {0}, flow = [0, 0],
              bad_scenarios = [(0, ''Accident''), (0, ''Accident'')], rating = Some 0, stdout = []\<rparr>)"
  by (simp add: simulate_def TrafficSimulation_init_def optimize_signals_def simulate_body_def
      mean_rating_def)

subsection \<open>A zero green time is reported as zero speed\<close>



end
